theory Spec2Isabelle
  imports Main
begin

section \<open>SimpleVector: a growable array over an owned block\<close>

text \<open>
  The model follows \<^verbatim>\<open>simple_vector.h\<close>. A \<^verbatim>\<open>SimpleVector<Type>\<close> has the three
  fields of the class: \<^verbatim>\<open>size_\<close>, \<^verbatim>\<open>capacity_\<close> and \<^verbatim>\<open>items_\<close>, the block of
  slots that the \<^verbatim>\<open>ArrayPtr<Type>\<close> owns. The block is a list whose length is the
  number of slots that were allocated, which the code records nowhere else: the field
  \<^verbatim>\<open>capacity_\<close> is a number of its own and is kept apart from it. A name cannot end
  in an underscore here, so the fields are \<open>size_m\<close>, \<open>capacity_m\<close> and \<open>items_m\<close>.

  \<^verbatim>\<open>size_t\<close> is modelled by \<open>nat\<close>. Every value that \<^verbatim>\<open>size_\<close> or \<^verbatim>\<open>capacity_\<close>
  takes is the length of a block that some \<^verbatim>\<open>ArrayPtr\<close> allocated, and no block of
  \<open>2^63\<close> or more slots can be allocated, so \<^verbatim>\<open>capacity_ * 2\<close>, \<^verbatim>\<open>capacity_ + 1\<close>
  and \<^verbatim>\<open>++size_\<close> do not wrap. A failing allocation (\<^verbatim>\<open>std::bad_alloc\<close>) is outside the
  model: every allocation succeeds.

  \<^verbatim>\<open>Type()\<close> is \<open>default\<close>. Moving a value is modelled as copying it; the slot that was
  moved from keeps its value, as it does for trivially copyable types.
\<close>

record 'a SimpleVector =
  size_m :: nat
  capacity_m :: nat
  items_m :: "'a list"

text \<open>
  How a call ends. \<open>Returned x\<close>: the call returns \<open>x\<close> (the value, the new state, or
  both). \<open>Thrown e v\<close>: the call throws \<open>e\<close> and leaves the container in state \<open>v\<close>.
  \<open>AssertionFailed\<close>: an \<^verbatim>\<open>assert\<close> of the source fails and the program aborts
  (asserts are modelled as compiled in). \<open>Undefined\<close>: a slot outside the owned block is
  read or written, which is undefined behaviour.
\<close>

datatype exn = OutOfRange

datatype ('x, 'a) outcome =
    Returned 'x
  | Thrown exn "'a SimpleVector"
  | AssertionFailed
  | Undefined

fun bind :: "('x, 'a) outcome \<Rightarrow> ('x \<Rightarrow> ('y, 'a) outcome) \<Rightarrow> ('y, 'a) outcome" where
  "bind (Returned x) f = f x"
| "bind (Thrown e v) f = Thrown e v"
| "bind AssertionFailed f = AssertionFailed"
| "bind Undefined f = Undefined"

fun in_block :: "'x option \<Rightarrow> ('x, 'a) outcome" where
  "in_block None = Undefined"
| "in_block (Some x) = Returned x"

text \<open>The element type of the examples is \<^verbatim>\<open>int\<close>, for which \<^verbatim>\<open>Type()\<close> is \<open>0\<close>.\<close>

instantiation int :: default
begin

definition default_int :: int where
  "default_int = 0"

instance ..

end

subsection \<open>The owned block\<close>

text \<open>
  Modelled from the spec: \<^verbatim>\<open>array_ptr.h\<close> is not among the sources. The spec gives
  the collaborator's contract: \<^verbatim>\<open>allocate(n)\<close> returns a new block owning exactly
  \<open>n\<close> default-valued slots; a default-constructed one owns nothing; \<^verbatim>\<open>swap\<close>
  exchanges two blocks; \<^verbatim>\<open>get()\<close> is a raw view of the slots, and so is
  \<^verbatim>\<open>operator[]\<close>, without any check.
\<close>

definition ArrayPtr_new :: "nat \<Rightarrow> 'a::default list" where
  "ArrayPtr_new n = replicate n default"

definition ArrayPtr_empty :: "'a list" where
  "ArrayPtr_empty = []"

text \<open>A raw read and a raw write of slot \<open>i\<close>: \<open>None\<close> outside the block.\<close>

definition rd :: "'a list \<Rightarrow> nat \<Rightarrow> 'a option" where
  "rd b i = (if i < length b then Some (b ! i) else None)"

definition wr :: "'a list \<Rightarrow> nat \<Rightarrow> 'a \<Rightarrow> 'a list option" where
  "wr b i x = (if i < length b then Some (b[i := x]) else None)"

text \<open>
  An argument that the source takes by reference (\<^verbatim>\<open>const Type& item\<close>,
  \<^verbatim>\<open>Type&& value\<close>). It refers either to an object outside the container, given by
  its value, or to slot \<open>i\<close> of the block that the container owns when the call is made,
  as \<^verbatim>\<open>v[i]\<close> does. The referent is read where the source reads it, not at the call:
  \<open>read_ref\<close> takes the block of the call as it is at that moment, or \<open>None\<close> once
  that block has been destroyed, when a reference to one of its slots dangles.
\<close>

datatype 'a reference = Outside 'a | Slot nat

fun read_ref :: "'a list option \<Rightarrow> 'a reference \<Rightarrow> 'a option" where
  "read_ref blk (Outside x) = Some x"
| "read_ref None (Slot i) = None"
| "read_ref (Some b) (Slot i) = rd b i"

subsection \<open>The algorithms of the standard library that the class calls\<close>

text \<open>
  \<^verbatim>\<open>std::copy(first, last, d_first)\<close> from one block into another, front to back.
  Positions are offsets from the start of their block.
\<close>

function std_copy :: "'a list \<Rightarrow> nat \<Rightarrow> nat \<Rightarrow> 'a list \<Rightarrow> nat \<Rightarrow> 'a list option" where
  "std_copy src first lastp dst d_first =
     (if first < lastp then
        (case rd src first of
           None \<Rightarrow> None
         | Some x \<Rightarrow>
             (case wr dst d_first x of
                None \<Rightarrow> None
              | Some dst' \<Rightarrow> std_copy src (Suc first) lastp dst' (Suc d_first)))
      else Some dst)"
  by pat_completeness auto
termination
  by (relation "measure (\<lambda>(src, first, lastp, dst, d_first). lastp - first)") auto

text \<open>\<^verbatim>\<open>std::move(first, last, d_first)\<close>: the same traversal, moving each value.\<close>

definition std_move :: "'a list \<Rightarrow> nat \<Rightarrow> nat \<Rightarrow> 'a list \<Rightarrow> nat \<Rightarrow> 'a list option" where
  "std_move = std_copy"

text \<open>
  \<^verbatim>\<open>std::copy_backward(first, last, d_last)\<close> inside one block, back to front: the
  class only calls it with source and destination in \<^verbatim>\<open>items_\<close>.
\<close>

function std_copy_backward :: "'a list \<Rightarrow> nat \<Rightarrow> nat \<Rightarrow> nat \<Rightarrow> 'a list option" where
  "std_copy_backward b first lastp d_last =
     (if first < lastp then
        (case rd b (lastp - 1) of
           None \<Rightarrow> None
         | Some x \<Rightarrow>
             (case wr b (d_last - 1) x of
                None \<Rightarrow> None
              | Some b' \<Rightarrow> std_copy_backward b' first (lastp - 1) (d_last - 1)))
      else Some b)"
  by pat_completeness auto
termination
  by (relation "measure (\<lambda>(b, first, lastp, d_last). lastp - first)") auto

definition std_move_backward :: "'a list \<Rightarrow> nat \<Rightarrow> nat \<Rightarrow> nat \<Rightarrow> 'a list option" where
  "std_move_backward = std_copy_backward"

text \<open>
  \<^verbatim>\<open>std::equal(first1, last1, first2, last2)\<close> on random-access ranges: different
  lengths are unequal without a read, equal lengths are compared slot by slot.
\<close>

function equal_loop :: "'a list \<Rightarrow> nat \<Rightarrow> nat \<Rightarrow> 'a list \<Rightarrow> nat \<Rightarrow> bool option" where
  "equal_loop b1 first1 last1 b2 first2 =
     (if first1 < last1 then
        (case rd b1 first1 of
           None \<Rightarrow> None
         | Some x \<Rightarrow>
             (case rd b2 first2 of
                None \<Rightarrow> None
              | Some y \<Rightarrow>
                  if x = y then equal_loop b1 (Suc first1) last1 b2 (Suc first2)
                  else Some False))
      else Some True)"
  by pat_completeness auto
termination
  by (relation "measure (\<lambda>(b1, first1, last1, b2, first2). last1 - first1)") auto

definition std_equal :: "'a list \<Rightarrow> nat \<Rightarrow> nat \<Rightarrow> 'a list \<Rightarrow> nat \<Rightarrow> nat \<Rightarrow> bool option" where
  "std_equal b1 first1 last1 b2 first2 last2 =
     (if last1 - first1 \<noteq> last2 - first2 then Some False
      else equal_loop b1 first1 last1 b2 first2)"

text \<open>
  \<^verbatim>\<open>std::lexicographical_compare(first1, last1, first2, last2)\<close>: the first pair of
  slots of which one is less than the other decides; if one range ends first, the
  result is whether it is the first range that ended and the second that did not.
\<close>

function std_lexicographical_compare ::
  "('a::ord) list \<Rightarrow> nat \<Rightarrow> nat \<Rightarrow> 'a list \<Rightarrow> nat \<Rightarrow> nat \<Rightarrow> bool option" where
  "std_lexicographical_compare b1 first1 last1 b2 first2 last2 =
     (if first1 < last1 \<and> first2 < last2 then
        (case rd b1 first1 of
           None \<Rightarrow> None
         | Some x \<Rightarrow>
             (case rd b2 first2 of
                None \<Rightarrow> None
              | Some y \<Rightarrow>
                  if x < y then Some True
                  else if y < x then Some False
                  else std_lexicographical_compare b1 (Suc first1) last1 b2 (Suc first2) last2))
      else Some (\<not> first1 < last1 \<and> first2 < last2))"
  by pat_completeness auto
termination
  by (relation "measure (\<lambda>(b1, first1, last1, b2, first2, last2). last1 - first1)") auto

subsection \<open>Constructors\<close>


text \<open>The loop \<^verbatim>\<open>for (i = ...; i < n; i++) items_[i] = x\<close> of the two sized
  constructors and of \<^verbatim>\<open>Resize\<close>, on the raw block.\<close>

function fill_loop :: "nat \<Rightarrow> nat \<Rightarrow> 'a \<Rightarrow> 'a list \<Rightarrow> 'a list option" where
  "fill_loop i n x b =
     (if i < n then
        (case wr b i x of
           None \<Rightarrow> None
         | Some b' \<Rightarrow> fill_loop (Suc i) n x b')
      else Some b)"
  by pat_completeness auto
termination
  by (relation "measure (\<lambda>(i, n, x, b). n - i)") auto

text \<open>\<^verbatim>\<open>explicit SimpleVector(size_t size)\<close>.\<close>

definition SimpleVector_sized :: "nat \<Rightarrow> ('a::default SimpleVector, 'a) outcome" where
  "SimpleVector_sized n =
     bind (in_block (fill_loop 0 n default (ArrayPtr_new n))) (\<lambda>b.
     Returned \<lparr>size_m = n, capacity_m = n, items_m = b\<rparr>)"

text \<open>\<^verbatim>\<open>SimpleVector(size_t size, const Type& value)\<close>.\<close>

definition SimpleVector_filled :: "nat \<Rightarrow> 'a \<Rightarrow> ('a::default SimpleVector, 'a) outcome" where
  "SimpleVector_filled n x =
     bind (in_block (fill_loop 0 n x (ArrayPtr_new n))) (\<lambda>b.
     Returned \<lparr>size_m = n, capacity_m = n, items_m = b\<rparr>)"

text \<open>\<^verbatim>\<open>SimpleVector(std::initializer_list<Type> init)\<close>.\<close>

definition SimpleVector_init :: "'a list \<Rightarrow> ('a::default SimpleVector, 'a) outcome" where
  "SimpleVector_init init =
     bind (in_block (std_copy init 0 (length init) (ArrayPtr_new (length init)) 0)) (\<lambda>b.
     Returned \<lparr>size_m = length init, capacity_m = length init, items_m = b\<rparr>)"

text \<open>
  \<^verbatim>\<open>SimpleVector(const SimpleVector& other)\<close>: the initialisers are
  \<^verbatim>\<open>size_(other.size_), capacity_(other.capacity_), items_(other.size_)\<close>, then the live
  range of \<open>other\<close> is copied into the new block.
\<close>

definition SimpleVector_copy :: "'a::default SimpleVector \<Rightarrow> ('a SimpleVector, 'a) outcome" where
  "SimpleVector_copy other =
     bind (in_block (std_copy (items_m other) 0 (size_m other) (ArrayPtr_new (size_m other)) 0)) (\<lambda>b.
     Returned \<lparr>size_m = size_m other, capacity_m = capacity_m other, items_m = b\<rparr>)"

text \<open>\<^verbatim>\<open>SimpleVector(SimpleVector&& moved) noexcept\<close>: the new object, and what is left
  of \<open>moved\<close>.\<close>

definition SimpleVector_move :: "'a SimpleVector \<Rightarrow> 'a SimpleVector \<times> 'a SimpleVector" where
  "SimpleVector_move moved =
     (\<lparr>size_m = size_m moved, capacity_m = capacity_m moved, items_m = items_m moved\<rparr>,
      \<lparr>size_m = 0, capacity_m = 0, items_m = ArrayPtr_empty\<rparr>)"

text \<open>\<^verbatim>\<open>SimpleVector(const ReserveProxyObj& reserved)\<close>, the argument being
  \<^verbatim>\<open>reserved.capacity\<close>.\<close>

definition SimpleVector_reserved :: "nat \<Rightarrow> 'a::default SimpleVector" where
  "SimpleVector_reserved n = \<lparr>size_m = 0, capacity_m = n, items_m = ArrayPtr_new n\<rparr>"

subsection \<open>Queries and access\<close>

definition GetSize :: "'a SimpleVector \<Rightarrow> nat" where
  "GetSize v = size_m v"

definition GetCapacity :: "'a SimpleVector \<Rightarrow> nat" where
  "GetCapacity v = capacity_m v"

definition IsEmpty :: "'a SimpleVector \<Rightarrow> bool" where
  "IsEmpty v = (size_m v = 0)"

text \<open>\<^verbatim>\<open>operator[]\<close>, read and written through the reference it returns: the assert,
  then the raw slot.\<close>

definition subscript :: "'a SimpleVector \<Rightarrow> nat \<Rightarrow> ('a, 'a) outcome" where
  "subscript v index =
     (if index < size_m v then in_block (rd (items_m v) index) else AssertionFailed)"

definition subscript_assign :: "'a SimpleVector \<Rightarrow> nat \<Rightarrow> 'a \<Rightarrow> ('a SimpleVector, 'a) outcome" where
  "subscript_assign v index x =
     (if index < size_m v then
        bind (in_block (wr (items_m v) index x)) (\<lambda>b. Returned (v\<lparr>items_m := b\<rparr>))
      else AssertionFailed)"

text \<open>\<^verbatim>\<open>At\<close> (both overloads have the same body): the element, and the container as
  the call leaves it.\<close>

definition At :: "'a SimpleVector \<Rightarrow> nat \<Rightarrow> ('a \<times> 'a SimpleVector, 'a) outcome" where
  "At v index =
     (if index \<ge> size_m v then Thrown OutOfRange v
      else bind (in_block (rd (items_m v) index)) (\<lambda>x. Returned (x, v)))"

definition Clear :: "'a SimpleVector \<Rightarrow> 'a SimpleVector" where
  "Clear v = v\<lparr>size_m := 0\<rparr>"

text \<open>\<^verbatim>\<open>swap\<close>: the two objects after the exchange, \<^verbatim>\<open>*this\<close> first.\<close>

definition swap_vectors :: "'a SimpleVector \<Rightarrow> 'a SimpleVector \<Rightarrow> 'a SimpleVector \<times> 'a SimpleVector" where
  "swap_vectors this other =
     (\<lparr>size_m = size_m other, capacity_m = capacity_m other, items_m = items_m other\<rparr>,
      \<lparr>size_m = size_m this, capacity_m = capacity_m this, items_m = items_m this\<rparr>)"

subsection \<open>Capacity\<close>

text \<open>\<^verbatim>\<open>Reserve\<close>: the temporary takes the live range, then hands over its block and
  its capacity.\<close>

definition Reserve :: "'a::default SimpleVector \<Rightarrow> nat \<Rightarrow> ('a SimpleVector, 'a) outcome" where
  "Reserve v new_capacity =
     (if new_capacity > capacity_m v then
        bind (SimpleVector_sized new_capacity) (\<lambda>temp_vector.
        bind (in_block (std_copy (items_m v) 0 (size_m v) (items_m temp_vector) 0)) (\<lambda>b.
        Returned (v\<lparr>capacity_m := capacity_m temp_vector, items_m := b\<rparr>)))
      else Returned v)"

text \<open>The loop \<^verbatim>\<open>for (i = 0; i < size_; i++) temp[i] = std::move(items_[i])\<close> of the
  moving \<^verbatim>\<open>PushBack\<close> and of \<^verbatim>\<open>Resize\<close>: a raw read of \<^verbatim>\<open>items_\<close>, a write through the
  temporary's \<^verbatim>\<open>operator[]\<close>.\<close>

function move_loop :: "nat \<Rightarrow> nat \<Rightarrow> 'a list \<Rightarrow> 'a SimpleVector \<Rightarrow> ('a SimpleVector, 'a) outcome" where
  "move_loop i n src temp =
     (if i < n then
        (case rd src i of
           None \<Rightarrow> Undefined
         | Some x \<Rightarrow>
             (case subscript_assign temp i x of
                Returned temp' \<Rightarrow> move_loop (Suc i) n src temp'
              | Thrown e v \<Rightarrow> Thrown e v
              | AssertionFailed \<Rightarrow> AssertionFailed
              | Undefined \<Rightarrow> Undefined))
      else Returned temp)"
  by pat_completeness auto
termination
  by (relation "measure (\<lambda>(i, n, src, temp). n - i)") auto

definition Resize :: "'a::default SimpleVector \<Rightarrow> nat \<Rightarrow> ('a SimpleVector, 'a) outcome" where
  "Resize v new_size =
     bind (if new_size > capacity_m v then
             bind (SimpleVector_sized (max new_size (capacity_m v * 2))) (\<lambda>temp_vec.
             bind (move_loop 0 (size_m v) (items_m v) temp_vec) (\<lambda>temp_vec.
             Returned (v\<lparr>items_m := items_m temp_vec, capacity_m := capacity_m temp_vec\<rparr>)))
           else Returned v) (\<lambda>v1.
     bind (if new_size > size_m v1 then
             bind (in_block (fill_loop (size_m v1) new_size default (items_m v1))) (\<lambda>b.
             Returned (v1\<lparr>items_m := b\<rparr>))
           else Returned v1) (\<lambda>v2.
     Returned (v2\<lparr>size_m := new_size\<rparr>)))"

subsection \<open>Appending, inserting, removing\<close>

text \<open>
  \<^verbatim>\<open>PushBack(const Type& item)\<close>. \<^verbatim>\<open>item\<close> is read at \<^verbatim>\<open>*end() = item\<close>, after the
  call of \<^verbatim>\<open>Reserve\<close>. When \<^verbatim>\<open>Reserve\<close> replaces the block (its argument is above
  \<^verbatim>\<open>capacity_\<close>), its temporary takes the old block and destroys it on return.
\<close>

definition PushBack :: "'a::default SimpleVector \<Rightarrow> 'a reference \<Rightarrow> ('a SimpleVector, 'a) outcome" where
  "PushBack v item =
     (let new_capacity = (if capacity_m v = 0 then 1 else capacity_m v * 2);
          block_replaced = (size_m v = capacity_m v \<and> new_capacity > capacity_m v)
      in
      bind (if size_m v = capacity_m v then Reserve v new_capacity else Returned v) (\<lambda>v1.
      bind (in_block (read_ref (if block_replaced then None else Some (items_m v1)) item)) (\<lambda>x.
      bind (in_block (wr (items_m v1) (size_m v1) x)) (\<lambda>b.
      Returned (v1\<lparr>items_m := b, size_m := size_m v1 + 1\<rparr>)))))"

text \<open>
  \<^verbatim>\<open>PushBack(Type&& item)\<close>. \<^verbatim>\<open>item\<close> is read at \<^verbatim>\<open>*end() = std::move(item)\<close>, after
  the \<^verbatim>\<open>if\<close> block at whose end \<^verbatim>\<open>temp_vector\<close>, by then the owner of the old block, is
  destroyed.
\<close>

definition PushBack_move :: "'a::default SimpleVector \<Rightarrow> 'a reference \<Rightarrow> ('a SimpleVector, 'a) outcome" where
  "PushBack_move v item =
     bind (if size_m v = capacity_m v then
             bind (SimpleVector_sized (max (capacity_m v + 1) (capacity_m v * 2))) (\<lambda>temp_vector.
             bind (move_loop 0 (size_m v) (items_m v) temp_vector) (\<lambda>temp_vector.
             Returned (v\<lparr>capacity_m := capacity_m temp_vector, items_m := items_m temp_vector\<rparr>)))
           else Returned v) (\<lambda>v1.
     bind (in_block (read_ref (if size_m v = capacity_m v then None else Some (items_m v1)) item)) (\<lambda>x.
     bind (in_block (wr (items_m v1) (size_m v1) x)) (\<lambda>b.
     Returned (v1\<lparr>items_m := b, size_m := size_m v1 + 1\<rparr>))))"

text \<open>
  \<^verbatim>\<open>Insert(ConstIterator pos, const Type& value)\<close>. A position is its offset from
  \<^verbatim>\<open>begin()\<close>, an integer, so that positions before \<^verbatim>\<open>begin()\<close> exist too; \<^verbatim>\<open>end()\<close>
  is at offset \<^verbatim>\<open>size_\<close>. The result is the offset of the returned iterator and the
  new state. \<^verbatim>\<open>value\<close> is read at \<^verbatim>\<open>temp_vector[index] = value\<close>, when the old block
  is still owned and as it was, or at \<^verbatim>\<open>items_[index] = value\<close>, from the block as the
  shift has left it.
\<close>

definition Insert :: "'a::default SimpleVector \<Rightarrow> int \<Rightarrow> 'a reference \<Rightarrow> (nat \<times> 'a SimpleVector, 'a) outcome" where
  "Insert v pos val =
     (if 0 \<le> pos \<and> pos \<le> int (size_m v) then
        (let index = nat pos in
         bind (if size_m v = capacity_m v then
                 bind (SimpleVector_sized (max (capacity_m v + 1) (capacity_m v * 2))) (\<lambda>temp_vector.
                 bind (in_block (std_copy (items_m v) 0 index (items_m temp_vector) 0)) (\<lambda>b1.
                 bind (in_block (read_ref (Some (items_m v)) val)) (\<lambda>x.
                 bind (subscript_assign (temp_vector\<lparr>items_m := b1\<rparr>) index x) (\<lambda>temp_vector.
                 bind (in_block (std_copy (items_m v) index (size_m v) (items_m temp_vector) (index + 1))) (\<lambda>b2.
                 Returned (v\<lparr>items_m := b2, capacity_m := capacity_m temp_vector\<rparr>))))))
               else
                 bind (in_block (std_copy_backward (items_m v) index (size_m v) (size_m v + 1))) (\<lambda>b1.
                 bind (in_block (read_ref (Some b1) val)) (\<lambda>x.
                 bind (in_block (wr b1 index x)) (\<lambda>b2.
                 Returned (v\<lparr>items_m := b2\<rparr>))))) (\<lambda>v1.
         Returned (index, v1\<lparr>size_m := size_m v1 + 1\<rparr>)))
      else AssertionFailed)"

text \<open>\<^verbatim>\<open>Insert(ConstIterator pos, Type&& value)\<close>.\<close>

definition Insert_move :: "'a::default SimpleVector \<Rightarrow> int \<Rightarrow> 'a reference \<Rightarrow> (nat \<times> 'a SimpleVector, 'a) outcome" where
  "Insert_move v pos val =
     (if 0 \<le> pos \<and> pos \<le> int (size_m v) then
        (let index = nat pos in
         bind (if size_m v = capacity_m v then
                 bind (SimpleVector_sized (max (capacity_m v + 1) (capacity_m v * 2))) (\<lambda>temp_vector.
                 bind (in_block (std_move (items_m v) 0 index (items_m temp_vector) 0)) (\<lambda>b1.
                 bind (in_block (read_ref (Some (items_m v)) val)) (\<lambda>x.
                 bind (subscript_assign (temp_vector\<lparr>items_m := b1\<rparr>) index x) (\<lambda>temp_vector.
                 bind (in_block (std_move (items_m v) index (size_m v) (items_m temp_vector) (index + 1))) (\<lambda>b2.
                 Returned (v\<lparr>items_m := b2, capacity_m := capacity_m temp_vector\<rparr>))))))
               else
                 bind (in_block (std_move_backward (items_m v) index (size_m v) (size_m v + 1))) (\<lambda>b1.
                 bind (in_block (read_ref (Some b1) val)) (\<lambda>x.
                 bind (in_block (wr b1 index x)) (\<lambda>b2.
                 Returned (v\<lparr>items_m := b2\<rparr>))))) (\<lambda>v1.
         Returned (index, v1\<lparr>size_m := size_m v1 + 1\<rparr>)))
      else AssertionFailed)"

definition PopBack :: "'a SimpleVector \<Rightarrow> ('a SimpleVector, 'a) outcome" where
  "PopBack v = (if \<not> IsEmpty v then Returned (v\<lparr>size_m := size_m v - 1\<rparr>) else AssertionFailed)"



subsection \<open>Operations on two objects: assignment and comparison\<close>

text \<open>
  The assignments and \<^verbatim>\<open>operator==\<close> compare the addresses of their operands, so
  objects live in a store, and a reference is an address. A reference to no object is
  undefined behaviour.
\<close>

type_synonym 'a store = "nat \<Rightarrow> 'a SimpleVector option"

text \<open>\<^verbatim>\<open>operator=(const SimpleVector& rhs)\<close>: the copy is swapped into \<^verbatim>\<open>*this\<close> and
  the temporary, holding the old state, is destroyed.\<close>

definition assign_copy :: "'a::default store \<Rightarrow> nat \<Rightarrow> nat \<Rightarrow> ('a store, 'a) outcome" where
  "assign_copy s this rhs =
     (case s this of
        None \<Rightarrow> Undefined
      | Some t \<Rightarrow>
          (case s rhs of
             None \<Rightarrow> Undefined
           | Some r \<Rightarrow>
               if this \<noteq> rhs then
                 bind (SimpleVector_copy r) (\<lambda>temp.
                 Returned (s(this \<mapsto> fst (swap_vectors t temp))))
               else Returned s))"

text \<open>\<^verbatim>\<open>operator=(SimpleVector&& rhs)\<close>: the temporary is move-constructed from
  \<open>rhs\<close>, which is left empty.\<close>

definition assign_move :: "'a store \<Rightarrow> nat \<Rightarrow> nat \<Rightarrow> ('a store, 'a) outcome" where
  "assign_move s this rhs =
     (case s this of
        None \<Rightarrow> Undefined
      | Some t \<Rightarrow>
          (case s rhs of
             None \<Rightarrow> Undefined
           | Some r \<Rightarrow>
               if this \<noteq> rhs then
                 (let (temp, r') = SimpleVector_move r in
                  Returned (s(rhs \<mapsto> r', this \<mapsto> fst (swap_vectors t temp))))
               else Returned s))"

definition operator_eq :: "'a store \<Rightarrow> nat \<Rightarrow> nat \<Rightarrow> (bool, 'a) outcome" where
  "operator_eq s lhs rhs =
     (case s lhs of
        None \<Rightarrow> Undefined
      | Some l \<Rightarrow>
          (case s rhs of
             None \<Rightarrow> Undefined
           | Some r \<Rightarrow>
               if lhs = rhs then Returned True
               else if GetSize l = GetSize r then
                 in_block (std_equal (items_m l) 0 (size_m l) (items_m r) 0 (size_m r))
               else Returned False))"

definition operator_ne :: "'a store \<Rightarrow> nat \<Rightarrow> nat \<Rightarrow> (bool, 'a) outcome" where
  "operator_ne s lhs rhs = bind (operator_eq s lhs rhs) (\<lambda>e. Returned (\<not> e))"

definition operator_lt :: "('a::ord) store \<Rightarrow> nat \<Rightarrow> nat \<Rightarrow> (bool, 'a) outcome" where
  "operator_lt s lhs rhs =
     (case s lhs of
        None \<Rightarrow> Undefined
      | Some l \<Rightarrow>
          (case s rhs of
             None \<Rightarrow> Undefined
           | Some r \<Rightarrow>
               in_block (std_lexicographical_compare
                 (items_m l) 0 (size_m l) (items_m r) 0 (size_m r))))"

definition operator_gt :: "('a::ord) store \<Rightarrow> nat \<Rightarrow> nat \<Rightarrow> (bool, 'a) outcome" where
  "operator_gt s lhs rhs = operator_lt s rhs lhs"

definition operator_le :: "('a::ord) store \<Rightarrow> nat \<Rightarrow> nat \<Rightarrow> (bool, 'a) outcome" where
  "operator_le s lhs rhs = bind (operator_gt s lhs rhs) (\<lambda>g. Returned (\<not> g))"

definition operator_ge :: "('a::ord) store \<Rightarrow> nat \<Rightarrow> nat \<Rightarrow> (bool, 'a) outcome" where
  "operator_ge s lhs rhs = bind (operator_lt s lhs rhs) (\<lambda>l. Returned (\<not> l))"

text \<open>The loops are unfolded one step at a time, by hand.\<close>

declare std_copy.simps [simp del]
declare std_copy_backward.simps [simp del]
declare equal_loop.simps [simp del]
declare std_lexicographical_compare.simps [simp del]
declare fill_loop.simps [simp del]
declare move_loop.simps [simp del]

subsection \<open>The data model of the specification\<close>

text \<open>
  The live elements are the range from \<^verbatim>\<open>begin()\<close> to \<^verbatim>\<open>end()\<close>. The invariant is the
  one the specification gives for the container: the size is at most the capacity, and
  the block has at least as many slots as the capacity says.
\<close>

definition live :: "'a SimpleVector \<Rightarrow> 'a list" where
  "live v = take (size_m v) (items_m v)"

definition invariant :: "'a SimpleVector \<Rightarrow> bool" where
  "invariant v \<longleftrightarrow> size_m v \<le> capacity_m v \<and> capacity_m v \<le> length (items_m v)"

text \<open>
  The growth policy in the specification's words,
  \<^verbatim>\<open>newCapacity = max(capacity * 2, capacity + 1)\<close>, and the capacity it gives after
  \<open>n\<close> appends to a container of capacity \<open>c\<close> and size \<open>s\<close>: the policy is applied
  each time an append finds the capacity exhausted.
\<close>

definition growth_policy :: "nat \<Rightarrow> nat" where
  "growth_policy capacity = max (capacity * 2) (capacity + 1)"



section \<open>What the loops compute\<close>

lemma fill_loop_Some:
  "i \<le> n \<Longrightarrow> n \<le> length b \<Longrightarrow>
   fill_loop i n x b = Some (take i b @ replicate (n - i) x @ drop n b)"
proof (induction i n x b rule: fill_loop.induct)
  case (1 i n x b)
  show ?case
  proof (cases "i < n")
    case True
    have step: "fill_loop i n x b = fill_loop (Suc i) n x (b[i := x])"
      using True "1.prems" by (subst fill_loop.simps) (simp add: wr_def)
    have ih: "fill_loop (Suc i) n x (b[i := x]) =
        Some (take (Suc i) (b[i := x]) @ replicate (n - Suc i) x @ drop n (b[i := x]))"
      using True "1.prems" by (intro "1.IH"[of "b[i := x]"]) (simp_all add: wr_def)
    have n: "n - i = Suc (n - Suc i)"
      using True by simp
    have "take (Suc i) (b[i := x]) @ replicate (n - Suc i) x @ drop n (b[i := x])
        = take i b @ replicate (n - i) x @ drop n b"
      using True "1.prems" by (simp add: take_Suc_conv_app_nth n)
    with step ih show ?thesis by simp
  next
    case False
    with "1.prems" show ?thesis by (subst fill_loop.simps) simp
  qed
qed

lemma std_copy_Some:
  "first \<le> lastp \<Longrightarrow> lastp \<le> length src \<Longrightarrow> d + (lastp - first) \<le> length dst \<Longrightarrow>
   std_copy src first lastp dst d =
     Some (take d dst @ drop first (take lastp src) @ drop (d + (lastp - first)) dst)"
proof (induction src first lastp dst d rule: std_copy.induct)
  case (1 src first lastp dst d)
  show ?case
  proof (cases "first < lastp")
    case True
    let ?x = "src ! first"
    let ?dst = "dst[d := ?x]"
    have d: "d < length dst"
      using True "1.prems" by linarith
    have step: "std_copy src first lastp dst d = std_copy src (Suc first) lastp ?dst (Suc d)"
      using True "1.prems" d by (subst std_copy.simps) (simp add: wr_def rd_def)
    have ih: "std_copy src (Suc first) lastp ?dst (Suc d) =
        Some (take (Suc d) ?dst @ drop (Suc first) (take lastp src) @
              drop (Suc d + (lastp - Suc first)) ?dst)"
      using True "1.prems" d by (intro "1.IH"[of ?x ?dst]) (simp_all add: wr_def rd_def)
    have a: "take (Suc d) ?dst = take d dst @ [?x]"
      using d by (simp add: take_Suc_conv_app_nth)
    have b: "drop first (take lastp src) = ?x # drop (Suc first) (take lastp src)"
      using True "1.prems" by (simp add: Cons_nth_drop_Suc[symmetric])
    have e: "Suc d + (lastp - Suc first) = d + (lastp - first)"
      using True by arith
    have c: "drop (Suc d + (lastp - Suc first)) ?dst = drop (d + (lastp - first)) dst"
      unfolding e using True by (intro drop_update_cancel) arith
    show ?thesis
      unfolding step ih a b c by simp
  next
    case False
    with "1.prems" show ?thesis by (subst std_copy.simps) simp
  qed
qed



section \<open>What the operations compute\<close>

lemma SimpleVector_sized_eq:
  "SimpleVector_sized n = Returned \<lparr>size_m = n, capacity_m = n, items_m = replicate n default\<rparr>"
  by (simp add: SimpleVector_sized_def ArrayPtr_new_def fill_loop_Some)

lemma move_loop_eq:
  "i \<le> n \<Longrightarrow> n \<le> length src \<Longrightarrow> n \<le> size_m temp \<Longrightarrow> size_m temp \<le> length (items_m temp) \<Longrightarrow>
   move_loop i n src temp =
     Returned (temp\<lparr>items_m := take i (items_m temp) @ drop i (take n src) @ drop n (items_m temp)\<rparr>)"
proof (induction "n - i" arbitrary: i temp)
  case 0
  then have "i = n" by simp
  then show ?case
    by (subst move_loop.simps) simp
next
  case (Suc k)
  let ?x = "src ! i"
  let ?t = "temp\<lparr>items_m := (items_m temp)[i := ?x]\<rparr>"
  have lt: "i < n" "i < length src" "i < size_m temp" "i < length (items_m temp)"
    using Suc.hyps(2) Suc.prems by arith+
  have step: "move_loop i n src temp = move_loop (Suc i) n src ?t"
    using lt by (subst move_loop.simps) (simp add: wr_def rd_def subscript_assign_def)
  have ih: "move_loop (Suc i) n src ?t =
      Returned (?t\<lparr>items_m := take (Suc i) (items_m ?t) @ drop (Suc i) (take n src) @ drop n (items_m ?t)\<rparr>)"
    using Suc.hyps(2) Suc.prems lt by (intro Suc.hyps(1)) simp_all
  have a: "take (Suc i) (items_m ?t) = take i (items_m temp) @ [?x]"
    using lt by (simp add: take_Suc_conv_app_nth)
  have b: "drop i (take n src) = ?x # drop (Suc i) (take n src)"
    using lt Suc.prems by (simp add: Cons_nth_drop_Suc[symmetric])
  have c: "drop n (items_m ?t) = drop n (items_m temp)"
    using lt by simp
  show ?case
    unfolding step ih a b c by simp
qed

lemma Reserve_grows:
  assumes "size_m v \<le> length (items_m v)" and "size_m v \<le> k" and "capacity_m v < k"
  shows "Reserve v k =
    Returned (v\<lparr>capacity_m := k, items_m := live v @ replicate (k - size_m v) default\<rparr>)"
  using assms by (simp add: Reserve_def SimpleVector_sized_eq std_copy_Some live_def)

lemma Reserve_keeps:
  "k \<le> capacity_m v \<Longrightarrow> Reserve v k = Returned v"
  by (simp add: Reserve_def)

lemma growth_policy_alt:
  "(if c = 0 then 1 else c * 2) = growth_policy c" "max (c + 1) (c * 2) = growth_policy c"
  "max (Suc c) (c * 2) = growth_policy c"
  by (auto simp: growth_policy_def max_def)

lemma growth_policy_gt: "c < growth_policy c"
  by (simp add: growth_policy_def max_def)








lemma Insert_move_eq: "Insert_move v pos x = Insert v pos x"
  unfolding Insert_move_def Insert_def std_move_def std_move_backward_def by (rule refl)





lemma Resize_eq:
  assumes "invariant v"
  shows "\<exists>v'. Resize v n = Returned v' \<and> size_m v' = n \<and> invariant v' \<and>
    live v' = take n (live v) @ replicate (n - size_m v) default"
proof (cases "capacity_m v < n")
  case True
  let ?k = "max n (capacity_m v * 2)"
  let ?s = "size_m v"
  let ?temp = "\<lparr>size_m = ?k, capacity_m = ?k, items_m = replicate ?k default\<rparr> :: 'a SimpleVector"
  let ?b1 = "live v @ replicate (?k - ?s) default"
  have s: "?s \<le> length (items_m v)" "?s \<le> capacity_m v" "?s < n" "n \<le> ?k" "?s \<le> ?k"
    using assms True by (auto simp: invariant_def max_def)
  have m: "move_loop 0 ?s (items_m v) ?temp = Returned (?temp\<lparr>items_m := ?b1\<rparr>)"
    using s by (subst move_loop_eq) (simp_all add: live_def)
  have len: "length ?b1 = ?k" "length (live v) = ?s"
    using s by (simp_all add: live_def)
  have f: "fill_loop ?s n default ?b1 = Some (take ?s ?b1 @ replicate (n - ?s) default @ drop n ?b1)"
    using s len by (intro fill_loop_Some) simp_all
  have t: "take ?s ?b1 = live v"
    using len by simp
  have r: "Resize v n = Returned \<lparr>size_m = n, capacity_m = ?k,
      items_m = live v @ replicate (n - ?s) default @ drop n ?b1\<rparr>"
    using True s m f t by (simp add: Resize_def SimpleVector_sized_eq)
  have l: "take n (live v @ replicate (n - ?s) default @ drop n ?b1) = live v @ replicate (n - ?s) default"
    using s len by simp
  have tl: "take n (live v) = live v"
    using s len by simp
  have inv: "length (live v @ replicate (n - ?s) default @ drop n ?b1) = ?k"
    using s len by simp
  show ?thesis
    unfolding r using l tl inv s by (simp add: live_def invariant_def)
next
  case False
  let ?s = "size_m v"
  let ?b = "items_m v"
  have s: "?s \<le> capacity_m v" "capacity_m v \<le> length ?b" "n \<le> capacity_m v"
    using assms False by (simp_all add: invariant_def)
  show ?thesis
  proof (cases "?s < n")
    case True
    have f: "fill_loop ?s n default ?b = Some (take ?s ?b @ replicate (n - ?s) default @ drop n ?b)"
      using s True by (intro fill_loop_Some) simp_all
    have r: "Resize v n = Returned \<lparr>size_m = n, capacity_m = capacity_m v,
        items_m = take ?s ?b @ replicate (n - ?s) default @ drop n ?b\<rparr>"
      using False True f by (simp add: Resize_def)
    have l: "take n (take ?s ?b @ replicate (n - ?s) default @ drop n ?b) =
        take ?s ?b @ replicate (n - ?s) default"
      using s True by simp
    have tl: "take n (take ?s ?b) = take ?s ?b"
      using True by (simp add: min_absorb1)
    have inv: "length (take ?s ?b @ replicate (n - ?s) default @ drop n ?b) = length ?b"
      using s True by simp
    show ?thesis
      unfolding r using l tl inv s by (simp add: live_def invariant_def)
  next
    case ge: False
    have r: "Resize v n = Returned (v\<lparr>size_m := n\<rparr>)"
      using False ge by (simp add: Resize_def)
    show ?thesis
      unfolding r using ge s by (simp add: live_def invariant_def min_absorb2)
  qed
qed

lemma invariant_Clear: "invariant v \<Longrightarrow> invariant (Clear v)"
  by (simp add: invariant_def Clear_def)

lemma Resize_Clear_defaults:
  assumes "invariant v"
  shows "\<exists>v'. Resize (Clear v) n = Returned v' \<and> size_m v' = n \<and> live v' = replicate n default"
  using Resize_eq[OF invariant_Clear[OF assms], of n] by (auto simp: Clear_def live_def)

lemma equal_loop_eq:
  "i \<le> n \<Longrightarrow> n \<le> length b1 \<Longrightarrow> n \<le> length b2 \<Longrightarrow>
   equal_loop b1 i n b2 i = Some (drop i (take n b1) = drop i (take n b2))"
proof (induction "n - i" arbitrary: i)
  case 0
  then show ?case
    by (subst equal_loop.simps) simp
next
  case (Suc k)
  have lt: "i < n" "i < length b1" "i < length b2" "Suc i \<le> n" "k = n - Suc i"
    using Suc.hyps(2) Suc.prems by arith+
  have d1: "drop i (take n b1) = b1 ! i # drop (Suc i) (take n b1)"
    using lt by (simp add: Cons_nth_drop_Suc[symmetric])
  have d2: "drop i (take n b2) = b2 ! i # drop (Suc i) (take n b2)"
    using lt by (simp add: Cons_nth_drop_Suc[symmetric])
  have ih: "equal_loop b1 (Suc i) n b2 (Suc i) =
      Some (drop (Suc i) (take n b1) = drop (Suc i) (take n b2))"
    using lt Suc.prems by (intro Suc.hyps(1)) simp_all
  show ?case
    unfolding d1 d2 using lt ih by (subst equal_loop.simps) (simp add: rd_def)
qed

lemma std_equal_eq:
  assumes "n1 \<le> length b1" and "n2 \<le> length b2"
  shows "std_equal b1 0 n1 b2 0 n2 = Some (take n1 b1 = take n2 b2)"
proof (cases "n1 = n2")
  case True
  with assms equal_loop_eq[of 0 n1 b1 b2] show ?thesis
    by (simp add: std_equal_def)
next
  case False
  have "length (take n1 b1) \<noteq> length (take n2 b2)"
    using False assms by simp
  then have "take n1 b1 \<noteq> take n2 b2"
    by metis
  with False show ?thesis
    by (simp add: std_equal_def)
qed

lemma std_lexicographical_compare_eq:
  fixes b1 :: "('a::linorder) list"
  shows "i \<le> n1 \<Longrightarrow> n1 \<le> length b1 \<Longrightarrow> i \<le> n2 \<Longrightarrow> n2 \<le> length b2 \<Longrightarrow>
   std_lexicographical_compare b1 i n1 b2 i n2 =
     Some ((drop i (take n1 b1), drop i (take n2 b2)) \<in> lexord {(x, y). x < y})"
proof (induction "n1 - i" arbitrary: i)
  case 0
  then have i: "i = n1"
    by simp
  have "(drop n1 (take n2 b2) \<noteq> []) = (n1 < n2)"
    using "0.prems" i by auto
  then have e: "(([], drop n1 (take n2 b2)) \<in> lexord {(x, y). x < y}) = (n1 < n2)"
    unfolding lexord_Nil_left neq_Nil_conv .
  have d: "drop n1 (take n1 b1) = []"
    by simp
  show ?case
    unfolding i d e by (subst std_lexicographical_compare.simps) simp
next
  case (Suc k)
  have lt: "i < n1" "i < length b1" "Suc i \<le> n1" "k = n1 - Suc i"
    using Suc.hyps(2) Suc.prems by arith+
  show ?case
  proof (cases "i < n2")
    case True
    have lt2: "i < length b2" "Suc i \<le> n2"
      using True Suc.prems by arith+
    have d1: "drop i (take n1 b1) = b1 ! i # drop (Suc i) (take n1 b1)"
      using lt by (simp add: Cons_nth_drop_Suc[symmetric])
    have d2: "drop i (take n2 b2) = b2 ! i # drop (Suc i) (take n2 b2)"
      using True lt2 by (simp add: Cons_nth_drop_Suc[symmetric])
    have ih: "std_lexicographical_compare b1 (Suc i) n1 b2 (Suc i) n2 =
        Some ((drop (Suc i) (take n1 b1), drop (Suc i) (take n2 b2)) \<in> lexord {(x, y). x < y})"
      using lt lt2 Suc.prems by (intro Suc.hyps(1)) simp_all
    show ?thesis
      unfolding d1 d2 using lt lt2 True ih
      by (subst std_lexicographical_compare.simps) (auto simp: rd_def)
  next
    case False
    then have i: "i = n2"
      using Suc.prems by simp
    show ?thesis
      unfolding i using lt i by (subst std_lexicographical_compare.simps) simp
  qed
qed

lemma lexord_less_total:
  fixes xs :: "('a::linorder) list"
  shows "(ys, xs) \<notin> lexord {(x, y). x < y} \<longleftrightarrow> (xs, ys) \<in> lexord {(x, y). x < y} \<or> xs = ys"
proof -
  let ?r = "{(x, y). x < (y::'a)}"
  have lin: "(xs, ys) \<in> lexord ?r \<or> xs = ys \<or> (ys, xs) \<in> lexord ?r"
    by (rule lexord_linear) auto
  have "asym ?r"
    by (auto intro: asymI)
  then have asy: "(xs, ys) \<in> lexord ?r \<Longrightarrow> (ys, xs) \<notin> lexord ?r"
    by (rule lexord_asymmetric)
  have irr: "(xs, xs) \<notin> lexord ?r"
    by (rule lexord_irreflexive) simp
  from lin asy irr show ?thesis
    by blast
qed

lemma std_copy_empty: "std_copy src n n dst d = Some dst"
  by (subst std_copy.simps) simp

lemma std_copy_backward_empty: "std_copy_backward b n n d = Some b"
  by (subst std_copy_backward.simps) simp

lemma Insert_end_PushBack:
  "Insert v (int (size_m v)) (Outside x) = bind (PushBack v (Outside x)) (\<lambda>v'. Returned (size_m v, v'))"
proof (cases "size_m v = capacity_m v")
  case True
  let ?k = "growth_policy (capacity_m v)"
  have k: "capacity_m v < ?k"
    by (rule growth_policy_gt)
  show ?thesis
  proof (cases "std_copy (items_m v) 0 (size_m v) (replicate ?k default) 0")
    case None
    with True k show ?thesis
      by (simp add: Insert_def PushBack_def Let_def Reserve_def growth_policy_alt SimpleVector_sized_eq)
  next
    case (Some b)
    with True k show ?thesis
      by (simp add: Insert_def PushBack_def Reserve_def growth_policy_alt SimpleVector_sized_eq
          subscript_assign_def std_copy_empty wr_def Let_def)
  qed
next
  case False
  then show ?thesis
    by (cases "wr (items_m v) (size_m v) x")
      (simp_all add: Insert_def PushBack_def std_copy_backward_empty Let_def)
qed

lemma move_loop_std_copy:
  "n \<le> size_m temp \<Longrightarrow>
   move_loop i n src temp =
     (case std_copy src i n (items_m temp) i of
        None \<Rightarrow> Undefined
      | Some b \<Rightarrow> Returned (temp\<lparr>items_m := b\<rparr>))"
proof (induction "n - i" arbitrary: i temp)
  case 0
  then show ?case
    by (subst move_loop.simps, subst std_copy.simps) simp
next
  case (Suc k)
  have lt: "i < n" "i < size_m temp" "k = n - Suc i"
    using Suc.hyps(2) Suc.prems by arith+
  show ?case
  proof (cases "rd src i")
    case None
    with lt show ?thesis
      by (subst move_loop.simps, subst std_copy.simps) simp
  next
    case (Some x)
    show ?thesis
    proof (cases "wr (items_m temp) i x")
      case None
      with Some lt show ?thesis
        by (subst move_loop.simps, subst std_copy.simps) (simp add: subscript_assign_def)
    next
      case w: (Some b)
      have ih: "move_loop (Suc i) n src (temp\<lparr>items_m := b\<rparr>) =
          (case std_copy src (Suc i) n (items_m (temp\<lparr>items_m := b\<rparr>)) (Suc i) of
             None \<Rightarrow> Undefined
           | Some b' \<Rightarrow> Returned (temp\<lparr>items_m := b\<rparr>\<lparr>items_m := b'\<rparr>))"
        using lt Suc.prems by (intro Suc.hyps(1)) simp_all
      show ?thesis
        using Some w lt ih
        by (subst move_loop.simps, subst std_copy.simps)
          (simp add: subscript_assign_def split: option.splits)
    qed
  qed
qed

lemma Insert_move_end_PushBack_move:
  "Insert_move v (int (size_m v)) (Outside x) = bind (PushBack_move v (Outside x)) (\<lambda>v'. Returned (size_m v, v'))"
proof (cases "size_m v = capacity_m v")
  case True
  let ?k = "growth_policy (capacity_m v)"
  let ?temp = "\<lparr>size_m = ?k, capacity_m = ?k, items_m = replicate ?k default\<rparr> :: 'a SimpleVector"
  have k: "capacity_m v < ?k"
    by (rule growth_policy_gt)
  have m: "move_loop 0 (capacity_m v) (items_m v) ?temp =
     (case std_copy (items_m v) 0 (capacity_m v) (replicate ?k default) 0 of
        None \<Rightarrow> Undefined
      | Some b \<Rightarrow> Returned (?temp\<lparr>items_m := b\<rparr>))"
    using k by (subst move_loop_std_copy) simp_all
  show ?thesis
  proof (cases "std_copy (items_m v) 0 (capacity_m v) (replicate ?k default) 0")
    case None
    with True k m show ?thesis
      by (simp add: Insert_move_eq Insert_def PushBack_move_def growth_policy_alt SimpleVector_sized_eq)
  next
    case (Some b)
    with True k m show ?thesis
      by (simp add: Insert_move_eq Insert_def PushBack_move_def growth_policy_alt SimpleVector_sized_eq
          subscript_assign_def std_copy_empty wr_def Let_def)
  qed
next
  case False
  then show ?thesis
    by (cases "wr (items_m v) (size_m v) x")
      (simp_all add: Insert_move_eq Insert_def PushBack_move_def std_copy_backward_empty Let_def)
qed

section \<open>The claims\<close>

text \<open>
  Claim C1 says that a copy has the capacity of the source's size. The copy constructor
  allocates \<^verbatim>\<open>items_(other.size_)\<close> but records \<^verbatim>\<open>capacity_(other.capacity_)\<close>. On
  a vector of size 1 and capacity 2, built by \<^verbatim>\<open>PushBack(5)\<close> on a vector reserved
  for 2, the copy has the size 1 and the live element 5, a block of one slot, and the
  capacity field 2; the next \<^verbatim>\<open>PushBack\<close> on the copy finds room by its capacity field
  and writes outside the block.
\<close>

theorem copy_records_source_capacity:
  "PushBack (SimpleVector_reserved 2) (Outside (5::int)) =
     Returned \<lparr>size_m = 1, capacity_m = 2, items_m = [5, 0]\<rparr> \<and>
   SimpleVector_copy \<lparr>size_m = 1, capacity_m = 2, items_m = [5, 0::int]\<rparr> =
     Returned \<lparr>size_m = 1, capacity_m = 2, items_m = [5]\<rparr> \<and>
   PushBack \<lparr>size_m = 1, capacity_m = 2, items_m = [5::int]\<rparr> (Outside 6) = Undefined"
  by code_simp

text \<open>
  Claim C2 says that \<^verbatim>\<open>Insert\<close> at a position outside \<open>[0, size]\<close> fails with
  \<^verbatim>\<open>OutOfRange\<close> and leaves the container unchanged. On a vector of size 3 and
  capacity 4, at the position \<^verbatim>\<open>begin() + 4\<close>, one past \<^verbatim>\<open>end()\<close> and still at the end
  of the block, the assert on the position fails instead: nothing is thrown.
\<close>

theorem insert_outside_counterexample:
  "Insert \<lparr>size_m = 3, capacity_m = 4, items_m = [1, 2, 3, 0::int]\<rparr> 4 (Outside 9) = AssertionFailed \<and>
   Insert \<lparr>size_m = 3, capacity_m = 4, items_m = [1, 2, 3, 0::int]\<rparr> 4 (Outside 9) \<noteq>
     Thrown OutOfRange \<lparr>size_m = 3, capacity_m = 4, items_m = [1, 2, 3, 0]\<rparr>"
  by (simp add: Insert_def)

text \<open>
  Claim C2, amended. For every vector and every position outside \<open>[0, size]\<close>, both
  overloads of \<^verbatim>\<open>Insert\<close> fail the assert on the position, \<^verbatim>\<open>pos >= begin() && pos <= end()\<close>,
  and the program aborts: no \<^verbatim>\<open>OutOfRange\<close> is thrown and no state is returned, whatever
  the value argument refers to.
\<close>

theorem insert_outside_asserts:
  assumes "pos < 0 \<or> int (GetSize v) < pos"
  shows "Insert v pos x = AssertionFailed \<and> Insert_move v pos x = AssertionFailed"
  using assms by (auto simp: Insert_def Insert_move_def GetSize_def)

theorem insert_outside_asserts_witness:
  "(- 1 < (0::int) \<or> int (GetSize \<lparr>size_m = 2, capacity_m = 2, items_m = [1, 2::int]\<rparr>) < - 1) \<and>
   Insert \<lparr>size_m = 2, capacity_m = 2, items_m = [1, 2::int]\<rparr> (- 1) (Outside 9) = AssertionFailed \<and>
   Insert_move \<lparr>size_m = 2, capacity_m = 2, items_m = [1, 2::int]\<rparr> (- 1) (Slot 0) = AssertionFailed"
proof -
  have h: "- 1 < (0::int) \<or> int (GetSize \<lparr>size_m = 2, capacity_m = 2, items_m = [1, 2::int]\<rparr>) < - 1"
    by simp
  from insert_outside_asserts[OF h, of "Outside 9"] insert_outside_asserts[OF h, of "Slot 0"] h
  show ?thesis
    by simp
qed


text \<open>
  Claim C4. \<^verbatim>\<open>At(index)\<close> throws \<^verbatim>\<open>OutOfRange\<close> exactly when \<open>index \<ge> size\<close>, and it
  throws nothing else; the throw leaves the container as it was. With an index below
  the size, on a container whose live range lies inside its block, it returns the
  element at that index, and the container is as it was.
\<close>

theorem checked_access:
  "(At v i = Thrown OutOfRange v \<longleftrightarrow> GetSize v \<le> i) \<and>
   (\<forall>e s. At v i = Thrown e s \<longrightarrow> e = OutOfRange \<and> s = v \<and> GetSize v \<le> i) \<and>
   (i < GetSize v \<and> GetSize v \<le> length (items_m v) \<longrightarrow>
      At v i = Returned (live v ! i, v))"
proof -
  have "At v i = Returned (live v ! i, v)" if "i < GetSize v" "GetSize v \<le> length (items_m v)"
    using that by (simp add: At_def rd_def GetSize_def live_def)
  moreover have "At v i = Thrown OutOfRange v" if "GetSize v \<le> i"
    using that by (simp add: At_def GetSize_def)
  moreover have "At v i \<noteq> Thrown e s" if "\<not> GetSize v \<le> i" for e s
    using that by (cases "rd (items_m v) i") (simp_all add: At_def GetSize_def)
  ultimately show ?thesis
    by (metis outcome.inject(2))
qed

theorem checked_access_witness:
  "GetSize \<lparr>size_m = 3, capacity_m = 3, items_m = [10, 20, 30::int]\<rparr> \<le> 100 \<and>
   At \<lparr>size_m = 3, capacity_m = 3, items_m = [10, 20, 30::int]\<rparr> 100 =
     Thrown OutOfRange \<lparr>size_m = 3, capacity_m = 3, items_m = [10, 20, 30]\<rparr> \<and>
   2 < GetSize \<lparr>size_m = 3, capacity_m = 3, items_m = [10, 20, 30::int]\<rparr> \<and>
   GetSize \<lparr>size_m = 3, capacity_m = 3, items_m = [10, 20, 30::int]\<rparr>
     \<le> length (items_m \<lparr>size_m = 3, capacity_m = 3, items_m = [10, 20, 30::int]\<rparr>) \<and>
   At \<lparr>size_m = 3, capacity_m = 3, items_m = [10, 20, 30::int]\<rparr> 2 =
     Returned (30, \<lparr>size_m = 3, capacity_m = 3, items_m = [10, 20, 30]\<rparr>)"
  using checked_access[of "\<lparr>size_m = 3, capacity_m = 3, items_m = [10, 20, 30::int]\<rparr>" 100]
    checked_access[of "\<lparr>size_m = 3, capacity_m = 3, items_m = [10, 20, 30::int]\<rparr>" 2]
  by (simp add: GetSize_def live_def)

text \<open>
  Claim C5. On a container whose size is at most its capacity and whose live range lies
  inside its block (the invariant gives both), \<^verbatim>\<open>Reserve(k)\<close> with \<open>k\<close> above
  the capacity returns with capacity \<open>k\<close> (and a block of \<open>k\<close> slots), the same size and
  the same live elements in order; with \<open>k\<close> at most the capacity it changes nothing;
  and a second \<^verbatim>\<open>Reserve(k)\<close> after the first changes nothing, whatever \<open>k\<close> is.
\<close>

theorem reserve_sets_capacity:
  assumes "size_m v \<le> capacity_m v" and "size_m v \<le> length (items_m v)"
  shows "(GetCapacity v < k \<longrightarrow>
      (\<exists>v'. Reserve v k = Returned v' \<and> GetCapacity v' = k \<and> GetSize v' = GetSize v \<and>
        live v' = live v \<and> length (items_m v') = k)) \<and>
    (k \<le> GetCapacity v \<longrightarrow> Reserve v k = Returned v) \<and>
    (\<exists>v'. Reserve v k = Returned v' \<and> Reserve v' k = Returned v')"
proof (cases "capacity_m v < k")
  case True
  let ?v = "v\<lparr>capacity_m := k, items_m := live v @ replicate (k - size_m v) default\<rparr>"
  have n: "size_m v \<le> length (items_m v)" "size_m v \<le> k"
    using assms True by simp_all
  have r: "Reserve v k = Returned ?v"
    using n True by (rule Reserve_grows)
  have again: "Reserve ?v k = Returned ?v"
    by (rule Reserve_keeps) simp
  show ?thesis
    using True n r again by (simp add: GetCapacity_def GetSize_def live_def)
next
  case False
  then have "Reserve v k = Returned v"
    by (simp add: Reserve_keeps)
  with False show ?thesis
    by (simp add: GetCapacity_def)
qed

theorem reserve_sets_capacity_witness:
  "size_m \<lparr>size_m = 2, capacity_m = 2, items_m = [1, 2::int]\<rparr>
     \<le> capacity_m \<lparr>size_m = 2, capacity_m = 2, items_m = [1, 2::int]\<rparr> \<and>
   size_m \<lparr>size_m = 2, capacity_m = 2, items_m = [1, 2::int]\<rparr>
     \<le> length (items_m \<lparr>size_m = 2, capacity_m = 2, items_m = [1, 2::int]\<rparr>) \<and>
   GetCapacity \<lparr>size_m = 2, capacity_m = 2, items_m = [1, 2::int]\<rparr> < 5 \<and>
   (\<exists>v'. Reserve \<lparr>size_m = 2, capacity_m = 2, items_m = [1, 2::int]\<rparr> 5 = Returned v' \<and>
      GetCapacity v' = 5 \<and> GetSize v' = 2 \<and> live v' = [1, 2] \<and> Reserve v' 5 = Returned v') \<and>
   1 \<le> GetCapacity \<lparr>size_m = 2, capacity_m = 2, items_m = [1, 2::int]\<rparr> \<and>
   Reserve \<lparr>size_m = 2, capacity_m = 2, items_m = [1, 2::int]\<rparr> 1 =
     Returned \<lparr>size_m = 2, capacity_m = 2, items_m = [1, 2]\<rparr>"
proof -
  let ?v = "\<lparr>size_m = 2, capacity_m = 2, items_m = [1, 2::int]\<rparr>"
  have h: "size_m ?v \<le> capacity_m ?v" "size_m ?v \<le> length (items_m ?v)"
    by simp_all
  from reserve_sets_capacity[OF h, of 5] reserve_sets_capacity[OF h, of 1]
  show ?thesis
    by (auto simp: GetCapacity_def GetSize_def live_def)
qed

text \<open>
  Claim C6 says that \<^verbatim>\<open>Insert\<close> at \<^verbatim>\<open>end()\<close> gives what \<^verbatim>\<open>PushBack\<close> gives, for
  every container and every value. On the full vector that the initialiser list
  \<^verbatim>\<open>{3}\<close> builds, with its own element \<^verbatim>\<open>v[0]\<close> as the value, \<^verbatim>\<open>Insert\<close> reads the
  element while the old block is still there and returns \<open>[3, 3]\<close> with size 2 and
  capacity 2 in both overloads; \<^verbatim>\<open>PushBack\<close> first replaces the block, the old one is
  destroyed, and then it reads the element through the dangling reference, in both
  overloads. With a value outside the container the four calls agree.
\<close>

theorem append_own_element_dangles:
  "SimpleVector_init [3::int] = Returned \<lparr>size_m = 1, capacity_m = 1, items_m = [3]\<rparr> \<and>
   Insert \<lparr>size_m = 1, capacity_m = 1, items_m = [3::int]\<rparr> 1 (Slot 0) =
     Returned (1, \<lparr>size_m = 2, capacity_m = 2, items_m = [3, 3]\<rparr>) \<and>
   Insert_move \<lparr>size_m = 1, capacity_m = 1, items_m = [3::int]\<rparr> 1 (Slot 0) =
     Returned (1, \<lparr>size_m = 2, capacity_m = 2, items_m = [3, 3]\<rparr>) \<and>
   PushBack \<lparr>size_m = 1, capacity_m = 1, items_m = [3::int]\<rparr> (Slot 0) = Undefined \<and>
   PushBack_move \<lparr>size_m = 1, capacity_m = 1, items_m = [3::int]\<rparr> (Slot 0) = Undefined \<and>
   PushBack \<lparr>size_m = 1, capacity_m = 1, items_m = [3::int]\<rparr> (Outside 3) =
     Returned \<lparr>size_m = 2, capacity_m = 2, items_m = [3, 3]\<rparr> \<and>
   Insert \<lparr>size_m = 1, capacity_m = 1, items_m = [3::int]\<rparr> 1 (Outside 3) =
     Returned (1, \<lparr>size_m = 2, capacity_m = 2, items_m = [3, 3]\<rparr>)"
  by code_simp



text \<open>
  Claim C8. For two containers in the store whose live ranges lie inside their blocks,
  over a totally ordered element type: \<^verbatim>\<open>a < b\<close> is the lexicographic order of the
  live elements, in which a proper prefix comes first; \<^verbatim>\<open>==\<close> is equality of the live elements,
  \<^verbatim>\<open>!=\<close> its negation, \<^verbatim>\<open>a > b\<close> is \<^verbatim>\<open>b < a\<close>, \<^verbatim>\<open>a <= b\<close> is \<^verbatim>\<open>a < b\<close> or
  \<^verbatim>\<open>a == b\<close>, and \<^verbatim>\<open>a >= b\<close> is \<^verbatim>\<open>a > b\<close> or \<^verbatim>\<open>a == b\<close>. The instance below
  the theorem has \<open>[1, 2] < [1, 2, 3] < [2]\<close>.
\<close>

theorem comparison_operators:
  fixes s :: "('a::linorder) store"
  assumes "s p = Some a" and "s q = Some b"
    and "size_m a \<le> length (items_m a)" and "size_m b \<le> length (items_m b)"
  shows "operator_lt s p q = Returned ((live a, live b) \<in> lexord {(x, y). x < y}) \<and>
    operator_eq s p q = Returned (live a = live b) \<and>
    operator_ne s p q = Returned (\<not> live a = live b) \<and>
    operator_gt s p q = Returned ((live b, live a) \<in> lexord {(x, y). x < y}) \<and>
    operator_le s p q = Returned ((live a, live b) \<in> lexord {(x, y). x < y} \<or> live a = live b) \<and>
    operator_ge s p q = Returned ((live b, live a) \<in> lexord {(x, y). x < y} \<or> live a = live b)"
proof -
  have n: "size_m a \<le> length (items_m a)" "size_m b \<le> length (items_m b)"
    using assms by simp_all
  have lt: "operator_lt s p q = Returned ((live a, live b) \<in> lexord {(x, y). x < y})"
    using assms(1,2) n std_lexicographical_compare_eq[of 0 "size_m a" "items_m a" "size_m b" "items_m b"]
    by (simp add: operator_lt_def live_def)
  have gt: "operator_gt s p q = Returned ((live b, live a) \<in> lexord {(x, y). x < y})"
    using assms(1,2) n std_lexicographical_compare_eq[of 0 "size_m b" "items_m b" "size_m a" "items_m a"]
    by (simp add: operator_gt_def operator_lt_def live_def)
  have eq: "operator_eq s p q = Returned (live a = live b)"
  proof (cases "p = q")
    case True
    with assms(1,2) show ?thesis
      by (simp add: operator_eq_def)
  next
    case False
    show ?thesis
    proof (cases "size_m a = size_m b")
      case True
      with False assms(1,2) n std_equal_eq[of "size_m a" "items_m a" "size_m b" "items_m b"]
      show ?thesis
        by (simp add: operator_eq_def GetSize_def live_def)
    next
      case ne: False
      have "length (live a) \<noteq> length (live b)"
        using ne n by (simp add: live_def)
      then have "live a \<noteq> live b"
        by metis
      with False ne assms(1,2) show ?thesis
        by (simp add: operator_eq_def GetSize_def)
    qed
  qed
  have ne: "operator_ne s p q = Returned (\<not> live a = live b)"
    by (simp add: operator_ne_def eq)
  have le: "operator_le s p q =
      Returned ((live a, live b) \<in> lexord {(x, y). x < y} \<or> live a = live b)"
    by (simp add: operator_le_def gt lexord_less_total)
  have ge: "operator_ge s p q =
      Returned ((live b, live a) \<in> lexord {(x, y). x < y} \<or> live a = live b)"
    using lexord_less_total[of "live b" "live a"] by (auto simp: operator_ge_def lt)
  from lt eq ne gt le ge show ?thesis
    by blast
qed

theorem comparison_operators_witness:
  "operator_lt ((\<lambda>_. None)(0 \<mapsto> \<lparr>size_m = 2, capacity_m = 2, items_m = [1, 2::int]\<rparr>,
       1 \<mapsto> \<lparr>size_m = 3, capacity_m = 4, items_m = [1, 2, 3, 0]\<rparr>,
       2 \<mapsto> \<lparr>size_m = 1, capacity_m = 1, items_m = [2]\<rparr>)) 0 1 = Returned True \<and>
   operator_lt ((\<lambda>_. None)(0 \<mapsto> \<lparr>size_m = 2, capacity_m = 2, items_m = [1, 2::int]\<rparr>,
       1 \<mapsto> \<lparr>size_m = 3, capacity_m = 4, items_m = [1, 2, 3, 0]\<rparr>,
       2 \<mapsto> \<lparr>size_m = 1, capacity_m = 1, items_m = [2]\<rparr>)) 1 2 = Returned True \<and>
   operator_ge ((\<lambda>_. None)(0 \<mapsto> \<lparr>size_m = 2, capacity_m = 2, items_m = [1, 2::int]\<rparr>,
       1 \<mapsto> \<lparr>size_m = 3, capacity_m = 4, items_m = [1, 2, 3, 0]\<rparr>,
       2 \<mapsto> \<lparr>size_m = 1, capacity_m = 1, items_m = [2]\<rparr>)) 0 2 = Returned False"
proof -
  let ?a = "\<lparr>size_m = 2, capacity_m = 2, items_m = [1, 2::int]\<rparr>"
  let ?b = "\<lparr>size_m = 3, capacity_m = 4, items_m = [1, 2, 3, 0::int]\<rparr>"
  let ?c = "\<lparr>size_m = 1, capacity_m = 1, items_m = [2::int]\<rparr>"
  let ?s = "(\<lambda>_. None)(0 \<mapsto> ?a, 1 \<mapsto> ?b, 2 \<mapsto> ?c) :: int store"
  have s: "?s 0 = Some ?a" "?s 1 = Some ?b" "?s 2 = Some ?c"
    by simp_all
  have inv: "size_m ?a \<le> length (items_m ?a)" "size_m ?b \<le> length (items_m ?b)"
      "size_m ?c \<le> length (items_m ?c)"
    by simp_all
  have lv: "live ?a = [1, 2]" "live ?b = [1, 2, 3]" "live ?c = [2]"
    by (simp_all add: live_def)
  have lt01: "operator_lt ?s 0 1 = Returned ((live ?a, live ?b) \<in> lexord {(x, y). x < y})"
    using comparison_operators[of ?s 0 ?a 1 ?b, OF s(1) s(2) inv(1) inv(2)] by blast
  have lt12: "operator_lt ?s 1 2 = Returned ((live ?b, live ?c) \<in> lexord {(x, y). x < y})"
    using comparison_operators[of ?s 1 ?b 2 ?c, OF s(2) s(3) inv(2) inv(3)] by blast
  have ge02: "operator_ge ?s 0 2 =
      Returned ((live ?c, live ?a) \<in> lexord {(x, y). x < y} \<or> live ?a = live ?c)"
    using comparison_operators[of ?s 0 ?a 2 ?c, OF s(1) s(3) inv(1) inv(3)] by blast
  show ?thesis
    unfolding lt01 lt12 ge02 lv by simp
qed

text \<open>
  Claim C9. Assigning a container to itself, by the copying or by the moving
  \<^verbatim>\<open>operator=\<close>, returns and leaves the store as it was: the container has the same
  size, capacity and elements.
\<close>

theorem self_assignment:
  assumes "s p = Some v"
  shows "assign_copy s p p = Returned s \<and> assign_move s p p = Returned s"
  using assms by (simp add: assign_copy_def assign_move_def)

theorem self_assignment_witness:
  "((\<lambda>_. None)(0 \<mapsto> \<lparr>size_m = 1, capacity_m = 2, items_m = [7, 0::int]\<rparr>)) 0 =
     Some \<lparr>size_m = 1, capacity_m = 2, items_m = [7, 0]\<rparr> \<and>
   assign_copy ((\<lambda>_. None)(0 \<mapsto> \<lparr>size_m = 1, capacity_m = 2, items_m = [7, 0::int]\<rparr>)) 0 0 =
     Returned ((\<lambda>_. None)(0 \<mapsto> \<lparr>size_m = 1, capacity_m = 2, items_m = [7, 0]\<rparr>)) \<and>
   assign_move ((\<lambda>_. None)(0 \<mapsto> \<lparr>size_m = 1, capacity_m = 2, items_m = [7, 0::int]\<rparr>)) 0 0 =
     Returned ((\<lambda>_. None)(0 \<mapsto> \<lparr>size_m = 1, capacity_m = 2, items_m = [7, 0]\<rparr>))"
proof -
  let ?v = "\<lparr>size_m = 1, capacity_m = 2, items_m = [7, 0::int]\<rparr>"
  have s: "((\<lambda>_. None)(0 \<mapsto> ?v)) (0::nat) = Some ?v"
    by simp
  from self_assignment[of "(\<lambda>_. None)(0 \<mapsto> ?v)" 0 ?v, OF s] s show ?thesis
    by simp
qed

text \<open>
  Claim C10 says that \<^verbatim>\<open>Clear\<close> followed by \<^verbatim>\<open>Resize(n)\<close> leaves \<open>n\<close> live elements,
  all \<^verbatim>\<open>Type()\<close>, on every container. The copy of a vector of size 1 and capacity 2
  has a block of one slot and the capacity field 2, as under claim C1. On it,
  \<^verbatim>\<open>Clear\<close> and then \<^verbatim>\<open>Resize(2)\<close> finds \<open>2\<close> within the capacity field, keeps the
  block, and the loop \<^verbatim>\<open>items_[i] = Type()\<close> writes slot 1 outside it. On the source
  of the copy, whose block has the two slots, the same calls leave \<open>[0, 0]\<close>.
\<close>

theorem resize_on_copy_writes_outside:
  "bind (PushBack (SimpleVector_reserved 2) (Outside (5::int))) SimpleVector_copy =
     Returned \<lparr>size_m = 1, capacity_m = 2, items_m = [5]\<rparr> \<and>
   Clear \<lparr>size_m = 1, capacity_m = 2, items_m = [5::int]\<rparr> =
     \<lparr>size_m = 0, capacity_m = 2, items_m = [5]\<rparr> \<and>
   Resize (Clear \<lparr>size_m = 1, capacity_m = 2, items_m = [5::int]\<rparr>) 2 = Undefined \<and>
   Resize (Clear \<lparr>size_m = 1, capacity_m = 2, items_m = [5, 0::int]\<rparr>) 2 =
     Returned \<lparr>size_m = 2, capacity_m = 2, items_m = [0, 0]\<rparr>"
  by code_simp

end
